theory Spec2Isabelle
  imports Main
begin

section \<open>JavaScript values and string helpers used by pull-rsi.js\<close>

text \<open>
  A model of \<open>src/pull-rsi.js\<close>: the script logs into a reporting portal for each
  configured tenant, sets each report's date range to the last twelve months, triggers the
  CSV export and saves the file. The functions below keep the names of the script.

  Strings are lists of 8-bit code units. A value that may be \<open>null\<close> or
  \<open>undefined\<close> is an \<open>option\<close>; both are falsy, and so is the empty string.
\<close>

definition truthy :: "string option \<Rightarrow> bool" where
  "truthy v = (case v of None \<Rightarrow> False | Some s \<Rightarrow> s \<noteq> [])"

text \<open>\<open>a ?? b\<close> and \<open>a || b\<close> on an optional string.\<close>

definition nullish :: "string option \<Rightarrow> string option \<Rightarrow> string option" where
  "nullish v d = (case v of None \<Rightarrow> d | Some s \<Rightarrow> Some s)"

definition or_else :: "string option \<Rightarrow> string \<Rightarrow> string" where
  "or_else v d = (case v of None \<Rightarrow> d | Some s \<Rightarrow> if s = [] then d else s)"

definition startsWith :: "string \<Rightarrow> string \<Rightarrow> bool" where
  "startsWith s p = (take (length p) s = p)"

definition endsWith :: "string \<Rightarrow> string \<Rightarrow> bool" where
  "endsWith s p = (length p \<le> length s \<and> drop (length s - length p) s = p)"

text \<open>
  \<open>String.prototype.trim\<close>: the white space of ECMAScript among the code units
  below 256 is TAB, LF, VT, FF, CR, SPACE and NBSP.
\<close>

definition is_ws :: "char \<Rightarrow> bool" where
  "is_ws c = (c \<in> set [CHR 0x09, CHR 0x0A, CHR 0x0B, CHR 0x0C, CHR 0x0D, CHR 0x20, CHR 0xA0])"

definition trim :: "string \<Rightarrow> string" where
  "trim s = rev (dropWhile is_ws (rev (dropWhile is_ws s)))"

text \<open>\<open>s.split(c)\<close> for a one-character separator: the empty string gives \<open>['']\<close>.\<close>

fun split :: "char \<Rightarrow> string \<Rightarrow> string list" where
  "split c [] = [[]]"
| "split c (x # xs) =
     (if x = c then [] # split c xs
      else (case split c xs of [] \<Rightarrow> [[x]] | y # ys \<Rightarrow> (x # y) # ys))"

text \<open>\<open>Array.prototype.indexOf\<close>: the first index holding the value, or \<open>-1\<close>.\<close>

fun indexOf :: "'a list \<Rightarrow> 'a \<Rightarrow> int" where
  "indexOf [] v = -1"
| "indexOf (x # xs) v =
     (if x = v then 0 else (let i = indexOf xs v in if i = -1 then -1 else i + 1))"

text \<open>\<open>xs[i]\<close>: \<open>undefined\<close> out of range.\<close>

definition at_index :: "'a list \<Rightarrow> int \<Rightarrow> 'a option" where
  "at_index xs i = (if 0 \<le> i \<and> i < int (length xs) then Some (xs ! nat i) else None)"

text \<open>\<open>Array.prototype.find\<close>.\<close>

fun find_first :: "('a \<Rightarrow> bool) \<Rightarrow> 'a list \<Rightarrow> 'a option" where
  "find_first P [] = None"
| "find_first P (x # xs) = (if P x then Some x else find_first P xs)"

text \<open>\<open>Array.prototype.join\<close>, as \<open>console.log\<close> separates its arguments.\<close>

fun join :: "string \<Rightarrow> string list \<Rightarrow> string" where
  "join sep [] = []"
| "join sep [x] = x"
| "join sep (x # y # ys) = x @ sep @ join sep (y # ys)"

section \<open>Dates\<close>

text \<open>
  A \<open>Date\<close> is its time value: milliseconds since the epoch, UTC. The calendar
  functions are those of ECMAScript (\<open>Day\<close>, \<open>TimeWithinDay\<close>, \<open>YearFromTime\<close>,
  \<open>MonthFromTime\<close>, \<open>DateFromTime\<close>, \<open>MakeDay\<close>, \<open>MakeDate\<close>), computed with the
  usual closed forms for the proleptic Gregorian calendar.
\<close>

definition msPerDay :: int where
  "msPerDay = 86400000"

definition Day :: "int \<Rightarrow> int" where
  "Day t = t div msPerDay"

definition TimeWithinDay :: "int \<Rightarrow> int" where
  "TimeWithinDay t = t mod msPerDay"

text \<open>Day number to (year, month 1..12, day of month), and back.\<close>

definition civil_from_days :: "int \<Rightarrow> int \<times> int \<times> int" where
  "civil_from_days z0 =
     (let z = z0 + 719468;
          era = z div 146097;
          doe = z - era * 146097;
          yoe = (doe - doe div 1460 + doe div 36524 - doe div 146096) div 365;
          y = yoe + era * 400;
          doy = doe - (365 * yoe + yoe div 4 - yoe div 100);
          mp = (5 * doy + 2) div 153;
          d = doy - (153 * mp + 2) div 5 + 1;
          m = (if mp < 10 then mp + 3 else mp - 9)
      in (if m \<le> 2 then y + 1 else y, m, d))"

definition days_from_civil :: "int \<Rightarrow> int \<Rightarrow> int \<Rightarrow> int" where
  "days_from_civil y0 m d =
     (let y = (if m \<le> 2 then y0 - 1 else y0);
          era = y div 400;
          yoe = y - era * 400;
          doy = (153 * (if m > 2 then m - 3 else m + 9) + 2) div 5 + d - 1;
          doe = yoe * 365 + yoe div 4 - yoe div 100 + doy
      in era * 146097 + doe - 719468)"

definition YearFromTime :: "int \<Rightarrow> int" where
  "YearFromTime t = fst (civil_from_days (Day t))"

text \<open>Months count from 0 in ECMAScript.\<close>

definition MonthFromTime :: "int \<Rightarrow> int" where
  "MonthFromTime t = fst (snd (civil_from_days (Day t))) - 1"

definition MakeDay :: "int \<Rightarrow> int \<Rightarrow> int \<Rightarrow> int" where
  "MakeDay year month date =
     days_from_civil (year + month div 12) (month mod 12 + 1) 1 + date - 1"

definition MakeDate :: "int \<Rightarrow> int \<Rightarrow> int" where
  "MakeDate day time = day * msPerDay + time"

definition DateFromTime :: "int \<Rightarrow> int" where
  "DateFromTime t = Day t - MakeDay (YearFromTime t) (MonthFromTime t) 1 + 1"

text \<open>
  The host's time zone is ECMAScript's \<open>LocalTZA(t, isUTC)\<close>: the offset of local
  time in milliseconds, at the UTC instant \<open>t\<close> when \<open>isUTC\<close> and at the local time
  value \<open>t\<close> otherwise.
\<close>

type_synonym tza = "int \<Rightarrow> bool \<Rightarrow> int"

definition LocalTime :: "tza \<Rightarrow> int \<Rightarrow> int" where
  "LocalTime tz t = t + tz t True"

definition UTC :: "tza \<Rightarrow> int \<Rightarrow> int" where
  "UTC tz t = t - tz t False"

text \<open>\<open>Date.prototype.getDate\<close> and \<open>Date.prototype.setDate\<close> work in local time.\<close>

definition getDate :: "tza \<Rightarrow> int \<Rightarrow> int" where
  "getDate tz t = DateFromTime (LocalTime tz t)"

definition setDate :: "tza \<Rightarrow> int \<Rightarrow> int \<Rightarrow> int" where
  "setDate tz t dt =
     (let lt = LocalTime tz t
      in UTC tz (MakeDate (MakeDay (YearFromTime lt) (MonthFromTime lt) dt) (TimeWithinDay lt)))"

text \<open>\<open>Date.prototype.toISOString\<close> works in UTC.\<close>

definition digit :: "int \<Rightarrow> char" where
  "digit v = ''0123456789'' ! nat (v mod 10)"

definition pad2 :: "int \<Rightarrow> string" where
  "pad2 v = [digit (v div 10), digit v]"

definition pad3 :: "int \<Rightarrow> string" where
  "pad3 v = digit (v div 100) # pad2 v"

definition pad4 :: "int \<Rightarrow> string" where
  "pad4 v = digit (v div 1000) # pad3 v"

definition pad6 :: "int \<Rightarrow> string" where
  "pad6 v = digit (v div 100000) # digit (v div 10000) # pad4 v"

definition year_string :: "int \<Rightarrow> string" where
  "year_string y =
     (if 0 \<le> y \<and> y \<le> 9999 then pad4 y
      else (if y < 0 then ''-'' else ''+'') @ pad6 (abs y))"

definition toISOString :: "int \<Rightarrow> string" where
  "toISOString t =
     (let ms = TimeWithinDay t
      in year_string (YearFromTime t) @ ''-'' @ pad2 (MonthFromTime t + 1) @ ''-'' @
         pad2 (DateFromTime t) @ ''T'' @ pad2 (ms div 3600000) @ '':'' @
         pad2 (ms div 60000 mod 60) @ '':'' @ pad2 (ms div 1000 mod 60) @ ''.'' @
         pad3 (ms mod 1000) @ ''Z'')"

text \<open>\<open>const toYMD = (d) => d.toISOString().slice(0,10)\<close>\<close>

definition toYMD :: "int \<Rightarrow> string" where
  "toYMD d = take 10 (toISOString d)"

text \<open>\<open>new Date().toISOString().replace(/[:.]/g,'-').slice(0,19)\<close>\<close>

definition runStamp_of :: "int \<Rightarrow> string" where
  "runStamp_of t =
     take 19 (map (\<lambda>c. if c = CHR '':'' \<or> c = CHR ''.'' then CHR ''-'' else c) (toISOString t))"

section \<open>Paths\<close>

text \<open>
  \<open>path.join\<close> of Node.js on POSIX: the non-empty arguments joined by \<open>/\<close>, then
  normalised (empty and \<open>.\<close> segments dropped, \<open>..\<close> resolved against the segment
  before it).
\<close>

fun normalizeString :: "bool \<Rightarrow> string list \<Rightarrow> string list \<Rightarrow> string list" where
  "normalizeString allowAboveRoot acc [] = rev acc"
| "normalizeString allowAboveRoot acc (s # ss) =
     (if s = [] \<or> s = ''.'' then normalizeString allowAboveRoot acc ss
      else if s = ''..'' then
        (case acc of
           [] \<Rightarrow> normalizeString allowAboveRoot (if allowAboveRoot then [''..''] else []) ss
         | a # rest \<Rightarrow>
             if a = ''..'' then
               normalizeString allowAboveRoot (if allowAboveRoot then ''..'' # acc else acc) ss
             else normalizeString allowAboveRoot rest ss)
      else normalizeString allowAboveRoot (s # acc) ss)"

definition normalize_path :: "string \<Rightarrow> string" where
  "normalize_path p =
     (if p = [] then ''.''
      else
        (let isAbsolute = (hd p = CHR ''/'');
             trailingSeparator = (last p = CHR ''/'');
             q = join ''/'' (normalizeString (\<not> isAbsolute) [] (split CHR ''/'' p))
         in if q = [] then (if isAbsolute then ''/'' else if trailingSeparator then ''./'' else ''.'')
            else (if isAbsolute then ''/'' else []) @ q @ (if trailingSeparator then ''/'' else [])))"

definition path_join :: "string \<Rightarrow> string \<Rightarrow> string" where
  "path_join a b =
     (if a = [] then (if b = [] then ''.'' else normalize_path b)
      else if b = [] then normalize_path a
      else normalize_path (a @ ''/'' @ b))"

section \<open>Configuration, errors and the world the script acts on\<close>

text \<open>
  A report descriptor and a tenant record of \<open>tenants.json\<close>. An optional selector that is
  absent is \<open>None\<close>. The tenant's field \<open>id\<close> is \<open>id_cfg\<close> here.
\<close>

record reportCfg =
  name :: string
  path :: string
  presetLast12Selector :: "string option"
  startInput :: "string option"
  endInput :: "string option"
  exportButton :: "string option"

record tenantCfg =
  id_cfg :: string
  baseUrlEnv :: string
  reports :: "reportCfg list"

record creds =
  user :: string
  pass :: string

text \<open>What a download event delivers: the server's suggested file name and the bytes.\<close>

record download =
  suggestedFilename :: string
  content :: string

text \<open>
  An exception is either an \<open>Error\<close> the script itself throws (with its message) or a
  rejection coming from Playwright, the file system or the JSON parser.
\<close>

datatype error = ScriptError string | LibError string

fun message :: "error \<Rightarrow> string" where
  "message (ScriptError m) = m"
| "message (LibError m) = m"

text \<open>
  The calls the script makes on the browser and the file system: \<open>chromium.launch\<close>,
  \<open>browser.newContext\<close>, \<open>context.newPage\<close>, \<open>page.goto\<close>, \<open>page.fill\<close>, \<open>page.click\<close>,
  \<open>page.$\<close>, the \<open>click\<close> of an element handle, \<open>page.waitForLoadState\<close>,
  \<open>page.waitForEvent\<close>, the \<open>getAttribute\<close> of an element handle, \<open>page.evaluate\<close> of a
  fetch, \<open>download.saveAs\<close>, \<open>fs.writeFileSync\<close>, \<open>fs.promises.mkdir\<close>, \<open>context.close\<close> and
  \<open>browser.close\<close>. An element handle is named by the selector that found it.
\<close>

datatype action =
    Launch
  | NewContext
  | NewPage
  | Goto string
  | Fill string string
  | Click string
  | Query string
  | HandleClick string
  | WaitForLoadState string nat
  | WaitForEvent string nat
  | GetAttribute string string
  | EvaluateFetch "string option"
  | SaveAs string
  | WriteFile string
  | Mkdir string
  | CloseContext
  | CloseBrowser

text \<open>
  The environment of one run. The portal and the file system are not under the script's
  control: whether a call rejects, what a selector finds, which download arrives and what
  a fetch returns are functions of the calls made so far, unconstrained otherwise.
  \<open>tenants_json\<close> is what reading and parsing \<open>tenants.json\<close> gives, \<open>clock\<close> what
  \<open>new Date()\<close> gives, and \<open>LocalTZA\<close> the host's time zone.
\<close>

record environment =
  ROOT :: string
  process_env :: "string \<Rightarrow> string option"
  tenants_json :: "error + tenantCfg list"
  clock :: "action list \<Rightarrow> int"
  LocalTZA :: tza
  rejects :: "action list \<Rightarrow> action \<Rightarrow> string option"
  present :: "action list \<Rightarrow> string \<Rightarrow> bool"
  download_event :: "action list \<Rightarrow> download"
  attribute :: "action list \<Rightarrow> string \<Rightarrow> string \<Rightarrow> string option"
  fetched :: "action list \<Rightarrow> string option \<Rightarrow> string"

text \<open>
  The state the script changes: the calls made so far, the lines written by \<open>log\<close>, the
  files it has written, and the number of browser contexts that are open.
\<close>

record world =
  trace :: "action list"
  logs :: "string list"
  files :: "string \<Rightarrow> string option"
  contexts :: nat

text \<open>A computation either throws or returns a value, and leaves a world.\<close>

type_synonym 'a prog = "world \<Rightarrow> (error + 'a) \<times> world"

definition return :: "'a \<Rightarrow> 'a prog" where
  "return x = (\<lambda>w. (Inr x, w))"

definition throw :: "error \<Rightarrow> 'a prog" where
  "throw e = (\<lambda>w. (Inl e, w))"

definition bind :: "'a prog \<Rightarrow> ('a \<Rightarrow> 'b prog) \<Rightarrow> 'b prog" where
  "bind m f = (\<lambda>w. case m w of (Inl e, w') \<Rightarrow> (Inl e, w') | (Inr x, w') \<Rightarrow> f x w')"

text \<open>One call: it is recorded, and rejects when the environment says so.\<close>

definition perform :: "environment \<Rightarrow> action \<Rightarrow> unit prog" where
  "perform env a = (\<lambda>w.
     (case rejects env (trace w) a of
        Some m \<Rightarrow> Inl (LibError m)
      | None \<Rightarrow> Inr (),
      w\<lparr>trace := trace w @ [a]\<rparr>))"

section \<open>The helpers of pull-rsi.js\<close>

text \<open>\<open>const DATA_DIR = path.join(ROOT, 'data')\<close>\<close>

definition DATA_DIR :: "environment \<Rightarrow> string" where
  "DATA_DIR env = path_join (ROOT env) ''data''"

text \<open>\<open>const log = (...a) => console.log(new Date().toISOString(), '-', ...a)\<close>\<close>

definition log :: "environment \<Rightarrow> string list \<Rightarrow> unit prog" where
  "log env a = (\<lambda>w.
     (Inr (), w\<lparr>logs := logs w @ [join '' '' (toISOString (clock env (trace w)) # ''-'' # a)]\<rparr>))"

text \<open>
  \<open>const env = (k, def=null) => process.env[k] ?? def\<close>

  \<open>process_env env k\<close> is the variable \<open>k\<close> of the process environment: a string, or
  \<open>None\<close> for \<open>undefined\<close>. In Node \<open>process.env[k]\<close> is also defined for the names that
  \<open>process.env\<close> inherits from \<open>Object.prototype\<close> (\<open>toString\<close>, \<open>constructor\<close>,
  \<open>hasOwnProperty\<close>, ...), where it is a function and not a string. The script reads
  \<open>TENANTS\<close>, \<open>RSI_USER_<id>\<close>, \<open>RSI_PASS_<id>\<close>, none of which is such a name, and the
  variable named by \<open>baseUrlEnv\<close> of a tenant: a \<open>tenants.json\<close> whose \<open>baseUrlEnv\<close> is
  the name of a member of \<open>Object.prototype\<close> is not covered by this model, which has the
  variable unset there, where Node has a function (and passes it to \<open>page.goto\<close>).
\<close>

definition env_var :: "environment \<Rightarrow> string \<Rightarrow> string option \<Rightarrow> string option" where
  "env_var env k def = nullish (process_env env k) def"

text \<open>
  \<open>getTenantIds\<close>: \<open>env('TENANTS', '')\<close> is never \<open>null\<close>, so the \<open>None\<close> case of \<open>raw\<close> does
  not arise.
\<close>

definition getTenantIds :: "environment \<Rightarrow> string option \<Rightarrow> string list" where
  "getTenantIds env cliTenant =
     (case (if truthy cliTenant then cliTenant else None) of
        Some t \<Rightarrow> [t]
      | None \<Rightarrow>
          (case env_var env ''TENANTS'' (Some []) of
             None \<Rightarrow> []
           | Some raw \<Rightarrow> filter (\<lambda>s. s \<noteq> []) (map trim (split CHR '','' raw))))"

definition MissingCreds :: "string \<Rightarrow> error" where
  "MissingCreds i = ScriptError (''Missing creds for tenant '' @ i @ ''. Add RSI_USER_'' @ i @
                                 ''/RSI_PASS_'' @ i @ '' to .env'')"

definition getCredsForTenant :: "environment \<Rightarrow> string \<Rightarrow> error + creds" where
  "getCredsForTenant env i =
     (let u = env_var env (''RSI_USER_'' @ i) None;
          p = env_var env (''RSI_PASS_'' @ i) None
      in case (if truthy u \<and> truthy p then (u, p) else (None, None)) of
           (Some us, Some pw) \<Rightarrow> Inr \<lparr>user = us, pass = pw\<rparr>
         | _ \<Rightarrow> Inl (MissingCreds i))"

definition loadTenants :: "environment \<Rightarrow> (tenantCfg list) prog" where
  "loadTenants env = (case tenants_json env of Inl e \<Rightarrow> throw e | Inr ts \<Rightarrow> return ts)"

definition ensureDir :: "environment \<Rightarrow> string \<Rightarrow> unit prog" where
  "ensureDir env p = perform env (Mkdir p)"

text \<open>\<open>page.$(selector)\<close>: whether an element matches, unless the call rejects.\<close>

definition query :: "environment \<Rightarrow> string \<Rightarrow> bool prog" where
  "query env sel = (\<lambda>w.
     (case rejects env (trace w) (Query sel) of
        Some m \<Rightarrow> Inl (LibError m)
      | None \<Rightarrow> Inr (present env (trace w) sel),
      w\<lparr>trace := trace w @ [Query sel]\<rparr>))"

text \<open>\<open>if (v) { f(v) }\<close> for an optional selector \<open>v\<close>.\<close>

definition when_set :: "string option \<Rightarrow> (string \<Rightarrow> unit prog) \<Rightarrow> unit prog" where
  "when_set v f = (case v of None \<Rightarrow> return () | Some s \<Rightarrow> if s = [] then return () else f s)"

section \<open>setLast12Months\<close>

text \<open>
  Option B of \<open>setLast12Months\<close>: both dates are read from the clock (the two
  \<open>new Date()\<close> follow each other and are given the same instant), the start is moved
  back with \<open>start.setDate(start.getDate() - 364)\<close>, the configured inputs are filled and
  an Apply button is clicked when the page has one.
\<close>

definition set_dates_manually :: "environment \<Rightarrow> reportCfg \<Rightarrow> unit prog" where
  "set_dates_manually env cfg = (\<lambda>w.
     (let end_date = clock env (trace w);
          start0 = clock env (trace w);
          start_date = setDate (LocalTZA env) start0 (getDate (LocalTZA env) start0 - 364)
      in bind (when_set (startInput cfg) (\<lambda>s. perform env (Fill s (toYMD start_date)))) (\<lambda>_.
         bind (when_set (endInput cfg) (\<lambda>s. perform env (Fill s (toYMD end_date)))) (\<lambda>_.
         bind (query env ''text=Apply'') (\<lambda>applyBtn.
           if applyBtn then perform env (HandleClick ''text=Apply'') else return ()))) w))"

text \<open>
  Option A comes first: a configured preset that the page has is clicked, and the
  function returns.
\<close>

definition setLast12Months :: "environment \<Rightarrow> reportCfg \<Rightarrow> unit prog" where
  "setLast12Months env cfg =
     (case presetLast12Selector cfg of
        None \<Rightarrow> set_dates_manually env cfg
      | Some sel \<Rightarrow>
          if sel = [] then set_dates_manually env cfg
          else bind (query env sel) (\<lambda>hasPreset.
                 if hasPreset then perform env (Click sel)
                 else set_dates_manually env cfg))"

section \<open>exportCsv\<close>

text \<open>
  \<open>Promise.all([page.waitForEvent('download', { timeout: 12000 }), page.click(...)])\<close>:
  both calls start in the same state, and the whole rejects when either does.
\<close>

definition click_and_wait_for_download :: "environment \<Rightarrow> string \<Rightarrow> download prog" where
  "click_and_wait_for_download env sel = (\<lambda>w.
     (let h = trace w;
          w1 = w\<lparr>trace := h @ [WaitForEvent ''download'' 12000, Click sel]\<rparr>
      in case rejects env h (Click sel) of
           Some m \<Rightarrow> (Inl (LibError m), w1)
         | None \<Rightarrow>
             (case rejects env h (WaitForEvent ''download'' 12000) of
                Some m \<Rightarrow> (Inl (LibError m), w1)
              | None \<Rightarrow> (Inr (download_event env h), w1))))"

definition saveAs :: "environment \<Rightarrow> download \<Rightarrow> string \<Rightarrow> unit prog" where
  "saveAs env dl fp = (\<lambda>w.
     (case rejects env (trace w) (SaveAs fp) of
        Some m \<Rightarrow> (Inl (LibError m), w\<lparr>trace := trace w @ [SaveAs fp]\<rparr>)
      | None \<Rightarrow> (Inr (), w\<lparr>trace := trace w @ [SaveAs fp], files := (files w)(fp \<mapsto> content dl)\<rparr>)))"

definition writeFileSync :: "environment \<Rightarrow> string \<Rightarrow> string \<Rightarrow> unit prog" where
  "writeFileSync env fp data = (\<lambda>w.
     (case rejects env (trace w) (WriteFile fp) of
        Some m \<Rightarrow> (Inl (LibError m), w\<lparr>trace := trace w @ [WriteFile fp]\<rparr>)
      | None \<Rightarrow> (Inr (), w\<lparr>trace := trace w @ [WriteFile fp], files := (files w)(fp \<mapsto> data)\<rparr>)))"

definition getAttribute :: "environment \<Rightarrow> string \<Rightarrow> string \<Rightarrow> (string option) prog" where
  "getAttribute env sel a = (\<lambda>w.
     (case rejects env (trace w) (GetAttribute sel a) of
        Some m \<Rightarrow> Inl (LibError m)
      | None \<Rightarrow> Inr (attribute env (trace w) sel a),
      w\<lparr>trace := trace w @ [GetAttribute sel a]\<rparr>))"

text \<open>\<open>page.evaluate(async (u) => (await fetch(u)).text(), href)\<close>\<close>

definition evaluate_fetch :: "environment \<Rightarrow> string option \<Rightarrow> string prog" where
  "evaluate_fetch env u = (\<lambda>w.
     (case rejects env (trace w) (EvaluateFetch u) of
        Some m \<Rightarrow> Inl (LibError m)
      | None \<Rightarrow> Inr (fetched env (trace w) u),
      w\<lparr>trace := trace w @ [EvaluateFetch u]\<rparr>))"

definition csv_link :: string where
  "csv_link = ''a[href$=\".csv\"]''"

definition ExportCaptureError :: error where
  "ExportCaptureError = ScriptError
     ''Could not capture CSV download (neither event nor link). Update selectors for this report.''"

text \<open>The body of the \<open>catch\<close> block.\<close>

definition href_fallback :: "environment \<Rightarrow> string \<Rightarrow> string prog" where
  "href_fallback env savePathBase =
     bind (log env [''Download event not captured, trying href fallback...'']) (\<lambda>_.
     bind (query env csv_link) (\<lambda>link.
       if link then
         bind (getAttribute env csv_link ''href'') (\<lambda>href.
         bind (evaluate_fetch env href) (\<lambda>csv.
           (let fp = savePathBase @ ''.csv''
            in bind (writeFileSync env fp csv) (\<lambda>_. return fp))))
       else throw ExportCaptureError))"

text \<open>\<open>suggested.endsWith('.csv') ? suggested : suggested + '.csv'\<close>\<close>

definition with_csv_suffix :: "string \<Rightarrow> string" where
  "with_csv_suffix suggested =
     (if endsWith suggested ''.csv'' then suggested else suggested @ ''.csv'')"

text \<open>The code after the \<open>try\<close> statement: save the official download.\<close>

definition save_download :: "environment \<Rightarrow> download \<Rightarrow> string \<Rightarrow> string prog" where
  "save_download env dl savePathBase =
     (let suggested = suggestedFilename dl;
          fp = savePathBase @ ''__'' @ with_csv_suffix suggested
      in bind (saveAs env dl fp) (\<lambda>_. return fp))"

text \<open>\<open>cfg.exportButton || 'text=Export'\<close>\<close>

definition export_selector :: "reportCfg \<Rightarrow> string" where
  "export_selector cfg = or_else (exportButton cfg) ''text=Export''"

definition exportCsv :: "environment \<Rightarrow> reportCfg \<Rightarrow> string \<Rightarrow> string prog" where
  "exportCsv env cfg savePathBase = (\<lambda>w.
     (case click_and_wait_for_download env (export_selector cfg) w of
        (Inl e, w1) \<Rightarrow> href_fallback env savePathBase w1
      | (Inr dl, w1) \<Rightarrow> save_download env dl savePathBase w1))"

text \<open>The calls made once the export click and the wait for the download are over.\<close>

definition after_export_click :: "reportCfg \<Rightarrow> action list \<Rightarrow> action list" where
  "after_export_click cfg h = h @ [WaitForEvent ''download'' 12000, Click (export_selector cfg)]"

section \<open>login and runTenant\<close>

text \<open>
  \<open>Promise.any([...three clicks...]).catch(()=>{})\<close>: the three clicks are attempted and
  whatever becomes of them is swallowed.
\<close>

definition submit_login :: "unit prog" where
  "submit_login = (\<lambda>w.
     (Inr (), w\<lparr>trace := trace w @
        [Click ''button[type=\"submit\"]'', Click ''text=Sign In'', Click ''text=Log In'']\<rparr>))"

definition login :: "environment \<Rightarrow> string \<Rightarrow> string \<Rightarrow> string \<Rightarrow> unit prog" where
  "login env baseUrl u p =
     bind (perform env (Goto baseUrl)) (\<lambda>_.
     bind (perform env (Fill ''#username, input[name=\"username\"], input[type=\"email\"]'' u)) (\<lambda>_.
     bind (perform env (Fill ''#password, input[name=\"password\"], input[type=\"password\"]'' p)) (\<lambda>_.
     bind submit_login (\<lambda>_.
     perform env (WaitForLoadState ''networkidle'' 20000)))))"

definition newContext :: "environment \<Rightarrow> unit prog" where
  "newContext env =
     bind (perform env NewContext) (\<lambda>_ w. (Inr (), w\<lparr>contexts := contexts w + 1\<rparr>))"

definition close_context :: "environment \<Rightarrow> unit prog" where
  "close_context env =
     bind (perform env CloseContext) (\<lambda>_ w. (Inr (), w\<lparr>contexts := contexts w - 1\<rparr>))"

text \<open>\<open>baseUrl.replace(/\/$/,'')\<close>\<close>

definition strip_trailing_slash :: "string \<Rightarrow> string" where
  "strip_trailing_slash s = (if s \<noteq> [] \<and> last s = CHR ''/'' then butlast s else s)"

definition report_url :: "string \<Rightarrow> reportCfg \<Rightarrow> string" where
  "report_url baseUrl r =
     (if startsWith (path r) ''http'' then path r else strip_trailing_slash baseUrl @ path r)"

text \<open>\<open>path.join(tDir, `${tenantCfg.id}__${r.name}__${runStamp}`)\<close>\<close>

definition savePathBase_of :: "string \<Rightarrow> tenantCfg \<Rightarrow> reportCfg \<Rightarrow> string \<Rightarrow> string" where
  "savePathBase_of tDir tenantCfg r runStamp =
     path_join tDir (id_cfg tenantCfg @ ''__'' @ name r @ ''__'' @ runStamp)"

text \<open>The body of the loop over \<open>tenantCfg.reports\<close>.\<close>

definition run_report ::
  "environment \<Rightarrow> tenantCfg \<Rightarrow> string \<Rightarrow> string \<Rightarrow> string \<Rightarrow> reportCfg \<Rightarrow> unit prog" where
  "run_report env tenantCfg baseUrl tDir runStamp r =
     bind (log env [''['' @ id_cfg tenantCfg @ ''] Report: '' @ name r]) (\<lambda>_.
     bind (perform env (Goto (report_url baseUrl r))) (\<lambda>_.
     bind (setLast12Months env r) (\<lambda>_.
     bind (exportCsv env r (savePathBase_of tDir tenantCfg r runStamp)) (\<lambda>saved.
     log env [''['' @ id_cfg tenantCfg @ ''] Saved -> '' @ saved]))))"

fun run_reports ::
  "environment \<Rightarrow> tenantCfg \<Rightarrow> string \<Rightarrow> string \<Rightarrow> string \<Rightarrow> reportCfg list \<Rightarrow> unit prog" where
  "run_reports env tenantCfg baseUrl tDir runStamp [] = return ()"
| "run_reports env tenantCfg baseUrl tDir runStamp (r # rs) =
     bind (run_report env tenantCfg baseUrl tDir runStamp r) (\<lambda>_.
       run_reports env tenantCfg baseUrl tDir runStamp rs)"

text \<open>\<open>const runStamp = new Date().toISOString().replace(/[:.]/g,'-').slice(0,19)\<close>\<close>

definition runStamp :: "environment \<Rightarrow> string prog" where
  "runStamp env = (\<lambda>w. (Inr (runStamp_of (clock env (trace w))), w))"

text \<open>
  \<open>runTenant\<close> from \<open>const page = await context.newPage()\<close> to its last statement,
  \<open>await context.close()\<close>.
\<close>

definition tenant_session :: "environment \<Rightarrow> tenantCfg \<Rightarrow> creds \<Rightarrow> unit prog" where
  "tenant_session env tenantCfg cr =
     bind (perform env NewPage) (\<lambda>_.
     (case env_var env (baseUrlEnv tenantCfg) None of
        None \<Rightarrow> throw (ScriptError (''Base URL env '' @ baseUrlEnv tenantCfg @ '' not set''))
      | Some baseUrl \<Rightarrow>
          if baseUrl = [] then
            throw (ScriptError (''Base URL env '' @ baseUrlEnv tenantCfg @ '' not set''))
          else
            (let tDir = path_join (DATA_DIR env) (id_cfg tenantCfg)
             in bind (ensureDir env tDir) (\<lambda>_.
                bind (log env [''['' @ id_cfg tenantCfg @ ''] Logging in...'']) (\<lambda>_.
                bind (login env baseUrl (user cr) (pass cr)) (\<lambda>_.
                bind (log env [''['' @ id_cfg tenantCfg @ ''] Logged in.'']) (\<lambda>_.
                bind (runStamp env) (\<lambda>stamp.
                bind (run_reports env tenantCfg baseUrl tDir stamp (reports tenantCfg)) (\<lambda>_.
                close_context env)))))))))"

text \<open>\<open>const context = await browser.newContext({ acceptDownloads: true })\<close> comes first.\<close>

definition runTenant :: "environment \<Rightarrow> tenantCfg \<Rightarrow> creds \<Rightarrow> unit prog" where
  "runTenant env tenantCfg cr = bind (newContext env) (\<lambda>_. tenant_session env tenantCfg cr)"

section \<open>main\<close>

text \<open>
  \<open>tenantIds.map(id => { const cfg = allTenantsCfg.find(t => t.id === id); if (!cfg)
  throw ...; return cfg; })\<close>
\<close>

fun resolve_cfgs :: "tenantCfg list \<Rightarrow> string list \<Rightarrow> (tenantCfg list) prog" where
  "resolve_cfgs allTenantsCfg [] = return []"
| "resolve_cfgs allTenantsCfg (i # is) =
     (case find_first (\<lambda>t. id_cfg t = i) allTenantsCfg of
        None \<Rightarrow> throw (ScriptError (''Tenant '' @ i @ '' missing in tenants.json''))
      | Some cfg \<Rightarrow> bind (resolve_cfgs allTenantsCfg is) (\<lambda>cfgs. return (cfg # cfgs)))"

text \<open>The body of the \<open>try\<close> block of the loop over \<open>runCfgs\<close>.\<close>

definition try_tenant :: "environment \<Rightarrow> tenantCfg \<Rightarrow> unit prog" where
  "try_tenant env cfg =
     (case getCredsForTenant env (id_cfg cfg) of
        Inl e \<Rightarrow> throw e
      | Inr cr \<Rightarrow> runTenant env cfg cr)"

text \<open>One iteration: \<open>try { ... } catch (e) { log(`[${cfg.id}] ERROR:`, e.message) }\<close>.\<close>

definition attempt_tenant :: "environment \<Rightarrow> tenantCfg \<Rightarrow> unit prog" where
  "attempt_tenant env cfg = (\<lambda>w.
     (case try_tenant env cfg w of
        (Inl e, w') \<Rightarrow> log env [''['' @ id_cfg cfg @ ''] ERROR:'', message e] w'
      | (Inr u, w') \<Rightarrow> (Inr (), w')))"

fun run_tenants :: "environment \<Rightarrow> tenantCfg list \<Rightarrow> unit prog" where
  "run_tenants env [] = return ()"
| "run_tenants env (cfg # cfgs) = bind (attempt_tenant env cfg) (\<lambda>_. run_tenants env cfgs)"

text \<open>\<open>browser.close()\<close> closes every context of the browser.\<close>

definition close_browser :: "environment \<Rightarrow> unit prog" where
  "close_browser env =
     bind (perform env CloseBrowser) (\<lambda>_ w. (Inr (), w\<lparr>contexts := 0\<rparr>))"

text \<open>\<open>args.indexOf('--tenant')\<close> and \<open>tIdx !== -1 ? args[tIdx + 1] : null\<close>\<close>

definition singleTenant :: "string list \<Rightarrow> string option" where
  "singleTenant args =
     (let tIdx = indexOf args ''--tenant''
      in if tIdx \<noteq> -1 then at_index args (tIdx + 1) else None)"

text \<open>\<open>main\<close>, given \<open>process.argv\<close>; an error it returns is what makes the process exit 1.\<close>

definition main :: "environment \<Rightarrow> string list \<Rightarrow> unit prog" where
  "main env argv =
     (let args = drop 2 argv;
          tenantIds = getTenantIds env (singleTenant args)
      in if tenantIds = [] then
           throw (ScriptError ''No tenants specified. Set TENANTS in .env or use --tenant <id>.'')
         else
           bind (loadTenants env) (\<lambda>allTenantsCfg.
           bind (resolve_cfgs allTenantsCfg tenantIds) (\<lambda>runCfgs.
           bind (ensureDir env (DATA_DIR env)) (\<lambda>_.
           bind (perform env Launch) (\<lambda>_.
           bind (run_tenants env runCfgs) (\<lambda>_.
           close_browser env))))))"

section \<open>Frame conditions\<close>

text \<open>
  \<open>keeps R m\<close>: from every world, \<open>m\<close> leads to a world related to it by \<open>R\<close>, whether it
  returns or throws. The relations used are: the files are the same, the number of open
  contexts is the same, and the log has only grown.
\<close>

definition keeps :: "(world \<Rightarrow> world \<Rightarrow> bool) \<Rightarrow> 'a prog \<Rightarrow> bool" where
  "keeps R m = (\<forall>w. R w (snd (m w)))"

definition same_files :: "world \<Rightarrow> world \<Rightarrow> bool" where
  "same_files w w' = (files w' = files w)"

definition same_contexts :: "world \<Rightarrow> world \<Rightarrow> bool" where
  "same_contexts w w' = (contexts w' = contexts w)"

definition logs_grow :: "world \<Rightarrow> world \<Rightarrow> bool" where
  "logs_grow w w' = (\<exists>ys. logs w' = logs w @ ys)"

text \<open>Only files with a name in \<open>S\<close> are written.\<close>

definition writes_within :: "string set \<Rightarrow> world \<Rightarrow> world \<Rightarrow> bool" where
  "writes_within S w w' = (\<forall>p. p \<notin> S \<longrightarrow> files w' p = files w p)"

text \<open>
  \<open>closes_one m\<close>: when \<open>m\<close> returns, one context fewer is open; when it throws, as many
  as before.
\<close>

definition closes_one :: "'a prog \<Rightarrow> bool" where
  "closes_one m =
     (\<forall>w. contexts (snd (m w)) = (case fst (m w) of Inl e \<Rightarrow> contexts w | Inr x \<Rightarrow> contexts w - 1))"

text \<open>
  The names \<open>exportCsv\<close> can give a file, for a \<open>savePathBase\<close>: the name of the href
  fallback, and the names of the download path, one for each file name a download of this
  environment suggests.
\<close>

definition export_names :: "environment \<Rightarrow> string \<Rightarrow> string set" where
  "export_names env base =
     insert (base @ ''.csv'')
       (range (\<lambda>h. base @ ''__'' @ with_csv_suffix (suggestedFilename (download_event env h))))"





section \<open>Plain file names\<close>



section \<open>Example configurations and environments\<close>

text \<open>
  One report with every selector configured except the export button, two tenants, and a
  portal on which no call rejects, no selector matches and every export click is answered
  by a download named \<open>export\<close>. The host runs in UTC.
\<close>

definition sales :: reportCfg where
  "sales = \<lparr>name = ''sales'', path = ''/reports/sales'', presetLast12Selector = Some ''#last12'',
            startInput = Some ''#from'', endInput = Some ''#to'', exportButton = None\<rparr>"

definition tenantA :: tenantCfg where
  "tenantA = \<lparr>id_cfg = ''A'', baseUrlEnv = ''RSI_URL_A'', reports = [sales]\<rparr>"

definition tenantB :: tenantCfg where
  "tenantB = \<lparr>id_cfg = ''B'', baseUrlEnv = ''RSI_URL_B'', reports = []\<rparr>"

definition quiet_portal :: environment where
  "quiet_portal = \<lparr>ROOT = ''/app'',
     process_env = [''TENANTS'' \<mapsto> ''A, B'',
                    ''RSI_USER_A'' \<mapsto> ''alice'', ''RSI_PASS_A'' \<mapsto> ''pw'',
                    ''RSI_URL_A'' \<mapsto> ''https://a.example/'',
                    ''RSI_USER_B'' \<mapsto> ''bob'', ''RSI_PASS_B'' \<mapsto> ''pw2'',
                    ''RSI_URL_B'' \<mapsto> ''https://b.example''],
     tenants_json = Inr [tenantA, tenantB],
     clock = (\<lambda>h. 1711499400000),
     LocalTZA = (\<lambda>t isUTC. 0),
     rejects = (\<lambda>h a. None),
     present = (\<lambda>h sel. False),
     download_event = (\<lambda>h. \<lparr>suggestedFilename = ''export'', content = ''a,b''\<rparr>),
     attribute = (\<lambda>h sel a. Some ''/files/sales.csv''),
     fetched = (\<lambda>h u. ''x,y'')\<rparr>"

definition fresh :: world where
  "fresh = \<lparr>trace = [], logs = [], files = Map.empty, contexts = 0\<rparr>"

text \<open>The preset control of the \<open>sales\<close> report is on the page.\<close>

definition preset_portal :: environment where
  "preset_portal = quiet_portal\<lparr>present := (\<lambda>h sel. sel = ''#last12'')\<rparr>"

text \<open>No element matches the date inputs: every \<open>fill\<close> times out.\<close>

definition fill_rejects_portal :: environment where
  "fill_rejects_portal = quiet_portal\<lparr>rejects :=
     (\<lambda>h a. case a of Fill sel v \<Rightarrow> Some ''Timeout 30000ms exceeded'' | _ \<Rightarrow> None)\<rparr>"

text \<open>No download event arrives; the page has a link to a CSV file.\<close>

definition fallback_portal :: environment where
  "fallback_portal = quiet_portal\<lparr>
     rejects := (\<lambda>h a. if a = WaitForEvent ''download'' 12000
                        then Some ''Timeout 12000ms exceeded'' else None),
     present := (\<lambda>h sel. sel = csv_link)\<rparr>"

text \<open>No download event arrives, and the page has no such link.\<close>

definition no_export_portal :: environment where
  "no_export_portal = quiet_portal\<lparr>
     rejects := (\<lambda>h a. if a = WaitForEvent ''download'' 12000
                        then Some ''Timeout 12000ms exceeded'' else None)\<rparr>"

text \<open>The portal cannot be reached: every navigation rejects.\<close>

definition unreachable_portal :: environment where
  "unreachable_portal = quiet_portal\<lparr>rejects :=
     (\<lambda>h a. case a of Goto url \<Rightarrow> Some ''net::ERR_CONNECTION_REFUSED'' | _ \<Rightarrow> None)\<rparr>"

text \<open>The password of tenant \<open>A\<close> is not in the environment.\<close>

definition no_password_portal :: environment where
  "no_password_portal = quiet_portal\<lparr>process_env := (process_env quiet_portal)(''RSI_PASS_A'' := None)\<rparr>"

text \<open>
  The time zone Europe/London around 2023: summer time, one hour ahead of UTC, from
  2023-03-26T01:00Z to 2023-10-29T01:00Z. A local time value is read with the offset in
  force at that local time.
\<close>

definition london :: tza where
  "london t isUTC =
     (if isUTC then (if 1679792400000 \<le> t \<and> t < 1698541200000 then 3600000 else 0)
      else (if 1679796000000 \<le> t \<and> t < 1698544800000 then 3600000 else 0))"

definition london_portal :: environment where
  "london_portal = quiet_portal\<lparr>LocalTZA := london\<rparr>"

definition alice :: creds where
  "alice = \<lparr>user = ''alice'', pass = ''pw''\<rparr>"




section \<open>Sequencing\<close>

lemma return_apply [simp]: "return x w = (Inr x, w)"
  by (simp add: return_def)

lemma throw_apply [simp]: "throw e w = (Inl e, w)"
  by (simp add: throw_def)

lemma bind_cases:
  obtains (throws) e w' where "m w = (Inl e, w')" "bind m f w = (Inl e, w')"
        | (returns) x w' where "m w = (Inr x, w')" "bind m f w = f x w'"
proof (cases "m w")
  case (Pair r w')
  then show ?thesis
    by (cases r) (auto intro: throws returns simp: bind_def)
qed

section \<open>What each operation leaves unchanged\<close>

lemma keepsI: "(\<And>w. R w (snd (m w))) \<Longrightarrow> keeps R m"
  by (simp add: keeps_def)

lemma keepsD: "keeps R m \<Longrightarrow> R w (snd (m w))"
  by (simp add: keeps_def)

lemma keeps_bind_gen:
  assumes tr: "\<And>a b c. R a b \<Longrightarrow> R b c \<Longrightarrow> R a c"
    and m: "keeps R m" and f: "\<And>x. keeps R (f x)"
  shows "keeps R (bind m f)"
proof (rule keepsI)
  fix w
  show "R w (snd (bind m f w))"
  proof (cases rule: bind_cases [of m w f])
    case (throws e w')
    with keepsD [OF m, of w] show ?thesis by simp
  next
    case (returns x w')
    with keepsD [OF m, of w] keepsD [OF f, of w' x] tr show ?thesis by auto
  qed
qed

lemma keeps_files_bind:
  "keeps same_files m \<Longrightarrow> (\<And>x. keeps same_files (f x)) \<Longrightarrow> keeps same_files (bind m f)"
  by (rule keeps_bind_gen) (auto simp: same_files_def)

lemma keeps_contexts_bind:
  "keeps same_contexts m \<Longrightarrow> (\<And>x. keeps same_contexts (f x)) \<Longrightarrow>
   keeps same_contexts (bind m f)"
  by (rule keeps_bind_gen) (auto simp: same_contexts_def)

lemma keeps_logs_bind:
  "keeps logs_grow m \<Longrightarrow> (\<And>x. keeps logs_grow (f x)) \<Longrightarrow> keeps logs_grow (bind m f)"
  by (rule keeps_bind_gen) (auto simp: logs_grow_def)

lemma keeps_writes_bind:
  "keeps (writes_within S) m \<Longrightarrow> (\<And>x. keeps (writes_within S) (f x)) \<Longrightarrow>
   keeps (writes_within S) (bind m f)"
  by (rule keeps_bind_gen) (auto simp: writes_within_def)

lemma same_files_writes_within: "keeps same_files m \<Longrightarrow> keeps (writes_within S) m"
  by (simp add: keeps_def same_files_def writes_within_def)


lemmas keeps_bind = keeps_files_bind keeps_contexts_bind keeps_logs_bind

lemma keeps_return:
  "keeps same_files (return x)" "keeps same_contexts (return x)" "keeps logs_grow (return x)"
  by (simp_all add: keeps_def same_files_def same_contexts_def logs_grow_def return_apply)

lemma keeps_throw:
  "keeps same_files (throw e)" "keeps same_contexts (throw e)" "keeps logs_grow (throw e)"
  by (simp_all add: keeps_def same_files_def same_contexts_def logs_grow_def throw_apply)

lemma keeps_perform:
  "keeps same_files (perform env a)" "keeps same_contexts (perform env a)"
  "keeps logs_grow (perform env a)"
  by (simp_all add: keeps_def same_files_def same_contexts_def logs_grow_def perform_def)

lemma keeps_log:
  "keeps same_files (log env a)" "keeps same_contexts (log env a)" "keeps logs_grow (log env a)"
  by (simp_all add: keeps_def same_files_def same_contexts_def logs_grow_def log_def)

lemma keeps_query:
  "keeps same_files (query env sel)" "keeps same_contexts (query env sel)"
  "keeps logs_grow (query env sel)"
  by (simp_all add: keeps_def same_files_def same_contexts_def logs_grow_def query_def)

lemma keeps_when_set: "(\<And>s. keeps R (f s)) \<Longrightarrow> keeps R (return ()) \<Longrightarrow> keeps R (when_set v f)"
  by (simp add: when_set_def split: option.splits)

lemma keeps_if: "keeps R a \<Longrightarrow> keeps R b \<Longrightarrow> keeps R (if c then a else b)"
  by simp

lemmas keeps_basic = keeps_return keeps_throw keeps_perform keeps_log keeps_query

lemma keeps_set_dates_manually:
  "keeps same_files (set_dates_manually env cfg)"
  "keeps same_contexts (set_dates_manually env cfg)"
  "keeps logs_grow (set_dates_manually env cfg)"
  unfolding set_dates_manually_def Let_def
  by (rule keepsI, rule keepsD, intro keeps_bind keeps_when_set keeps_basic,
      simp_all add: keeps_basic)+

lemma keeps_setLast12Months:
  "keeps same_files (setLast12Months env cfg)"
  "keeps same_contexts (setLast12Months env cfg)"
  "keeps logs_grow (setLast12Months env cfg)"
  unfolding setLast12Months_def
  by (auto intro!: keeps_bind keeps_basic keeps_set_dates_manually split: option.splits)

lemma keeps_login:
  "keeps same_files (login env baseUrl u p)"
  "keeps same_contexts (login env baseUrl u p)"
  "keeps logs_grow (login env baseUrl u p)"
proof -
  have s: "keeps same_files submit_login" "keeps same_contexts submit_login"
    "keeps logs_grow submit_login"
    by (simp_all add: keeps_def same_files_def same_contexts_def logs_grow_def submit_login_def)
  show "keeps same_files (login env baseUrl u p)"
    "keeps same_contexts (login env baseUrl u p)"
    "keeps logs_grow (login env baseUrl u p)"
    unfolding login_def by (intro keeps_bind keeps_basic s)+
qed

lemma keeps_click_and_wait_for_download:
  "keeps same_files (click_and_wait_for_download env sel)"
  "keeps same_contexts (click_and_wait_for_download env sel)"
  "keeps logs_grow (click_and_wait_for_download env sel)"
  by (simp_all add: keeps_def same_files_def same_contexts_def logs_grow_def
        click_and_wait_for_download_def Let_def split: option.splits)

lemma keeps_getAttribute:
  "keeps same_files (getAttribute env sel a)" "keeps same_contexts (getAttribute env sel a)"
  "keeps logs_grow (getAttribute env sel a)"
  by (simp_all add: keeps_def same_files_def same_contexts_def logs_grow_def getAttribute_def)

lemma keeps_evaluate_fetch:
  "keeps same_files (evaluate_fetch env u)" "keeps same_contexts (evaluate_fetch env u)"
  "keeps logs_grow (evaluate_fetch env u)"
  by (simp_all add: keeps_def same_files_def same_contexts_def logs_grow_def evaluate_fetch_def)

lemma keeps_saveAs:
  "keeps (writes_within {fp}) (saveAs env dl fp)" "keeps same_contexts (saveAs env dl fp)"
  "keeps logs_grow (saveAs env dl fp)"
  by (simp_all add: keeps_def writes_within_def same_contexts_def logs_grow_def saveAs_def
        split: option.splits)

lemma keeps_writeFileSync:
  "keeps (writes_within {fp}) (writeFileSync env fp d)"
  "keeps same_contexts (writeFileSync env fp d)"
  "keeps logs_grow (writeFileSync env fp d)"
  by (simp_all add: keeps_def writes_within_def same_contexts_def logs_grow_def writeFileSync_def
        split: option.splits)

lemma keeps_href_fallback:
  "keeps (writes_within {base @ ''.csv''}) (href_fallback env base)"
  "keeps same_contexts (href_fallback env base)"
  "keeps logs_grow (href_fallback env base)"
  unfolding href_fallback_def Let_def
  by (intro keeps_bind keeps_writes_bind keeps_if keeps_basic keeps_getAttribute
        keeps_evaluate_fetch keeps_writeFileSync same_files_writes_within)+



text \<open>The file names \<open>exportCsv\<close> can write to, given its \<open>savePathBase\<close>.\<close>

lemma keeps_save_download:
  "keeps (writes_within {base @ ''__'' @ with_csv_suffix (suggestedFilename dl)})
     (save_download env dl base)"
  "keeps same_contexts (save_download env dl base)"
  "keeps logs_grow (save_download env dl base)"
  unfolding save_download_def Let_def
  by (intro keeps_bind keeps_writes_bind keeps_basic keeps_saveAs same_files_writes_within)+

lemma logs_grow_trans: "logs_grow a b \<Longrightarrow> logs_grow b c \<Longrightarrow> logs_grow a c"
  by (auto simp: logs_grow_def)

lemma keeps_exportCsv:
  "keeps (writes_within (export_names env base)) (exportCsv env cfg base)"
  "keeps same_contexts (exportCsv env cfg base)"
  "keeps logs_grow (exportCsv env cfg base)"
proof -
  let ?c = "click_and_wait_for_download env (export_selector cfg)"
  have c1: "same_files w (snd (?c w))" for w
    by (rule keepsD [OF keeps_click_and_wait_for_download(1)])
  have c2: "same_contexts w (snd (?c w))" for w
    by (rule keepsD [OF keeps_click_and_wait_for_download(2)])
  have c3: "logs_grow w (snd (?c w))" for w
    by (rule keepsD [OF keeps_click_and_wait_for_download(3)])
  have h1: "writes_within {base @ ''.csv''} w (snd (href_fallback env base w))" for w
    by (rule keepsD [OF keeps_href_fallback(1)])
  have h2: "same_contexts w (snd (href_fallback env base w))" for w
    by (rule keepsD [OF keeps_href_fallback(2)])
  have h3: "logs_grow w (snd (href_fallback env base w))" for w
    by (rule keepsD [OF keeps_href_fallback(3)])
  have s1: "writes_within {base @ ''__'' @ with_csv_suffix (suggestedFilename dl)} w
              (snd (save_download env dl base w))" for w dl
    by (rule keepsD [OF keeps_save_download(1)])
  have s2: "same_contexts w (snd (save_download env dl base w))" for w dl
    by (rule keepsD [OF keeps_save_download(2)])
  have s3: "logs_grow w (snd (save_download env dl base w))" for w dl
    by (rule keepsD [OF keeps_save_download(3)])
  have files: "writes_within (export_names env base) w (snd (exportCsv env cfg base w))" for w
  proof (cases "?c w")
    case (Pair r w1)
    have eq: "files w1 = files w"
      using c1 [of w] Pair by (simp add: same_files_def)
    show ?thesis
    proof (cases r)
      case (Inl e)
      then show ?thesis
        using Pair eq h1 [of w1] by (simp add: exportCsv_def writes_within_def export_names_def)
    next
      case (Inr dl)
      have "dl = download_event env (trace w)"
        using Pair Inr
        by (auto simp: click_and_wait_for_download_def Let_def split: option.splits)
      then show ?thesis
        using Pair Inr eq s1 [of dl w1]
        by (auto simp: exportCsv_def writes_within_def export_names_def)
    qed
  qed
  have ctx: "same_contexts w (snd (exportCsv env cfg base w))" for w
  proof (cases "?c w")
    case (Pair r w1)
    have eq: "contexts w1 = contexts w"
      using c2 [of w] Pair by (simp add: same_contexts_def)
    show ?thesis
      using Pair eq h2 [of w1] s2 [of w1]
      by (cases r) (simp_all add: exportCsv_def same_contexts_def)
  qed
  have lg: "logs_grow w (snd (exportCsv env cfg base w))" for w
  proof (cases "?c w")
    case (Pair r w1)
    have eq: "logs_grow w w1"
      using c3 [of w] Pair by simp
    show ?thesis
    proof (cases r)
      case (Inl e)
      then show ?thesis
        using Pair logs_grow_trans [OF eq h3 [of w1]] by (simp add: exportCsv_def)
    next
      case (Inr dl)
      then show ?thesis
        using Pair logs_grow_trans [OF eq s3 [of w1 dl]] by (simp add: exportCsv_def)
    qed
  qed
  show "keeps (writes_within (export_names env base)) (exportCsv env cfg base)"
    "keeps same_contexts (exportCsv env cfg base)"
    "keeps logs_grow (exportCsv env cfg base)"
    using files ctx lg by (simp_all add: keeps_def)
qed

lemma keeps_run_report:
  "keeps (writes_within (export_names env (savePathBase_of tDir tenantCfg r stamp)))
     (run_report env tenantCfg baseUrl tDir stamp r)"
  "keeps same_contexts (run_report env tenantCfg baseUrl tDir stamp r)"
  "keeps logs_grow (run_report env tenantCfg baseUrl tDir stamp r)"
  unfolding run_report_def
  by (intro keeps_bind keeps_writes_bind keeps_basic keeps_setLast12Months keeps_exportCsv
        same_files_writes_within)+

lemma keeps_run_reports_quiet:
  "keeps same_contexts (run_reports env tenantCfg baseUrl tDir stamp rs)"
  "keeps logs_grow (run_reports env tenantCfg baseUrl tDir stamp rs)"
  by (induction rs) (auto intro!: keeps_bind keeps_basic keeps_run_report)


lemma keeps_runStamp:
  "keeps same_files (runStamp env)" "keeps same_contexts (runStamp env)"
  "keeps logs_grow (runStamp env)"
  by (simp_all add: keeps_def same_files_def same_contexts_def logs_grow_def runStamp_def)

lemma keeps_newContext: "keeps same_files (newContext env)" "keeps logs_grow (newContext env)"
  by (simp_all add: keeps_def same_files_def logs_grow_def newContext_def bind_def perform_def
        split: option.splits)

lemma keeps_close_context:
  "keeps same_files (close_context env)" "keeps logs_grow (close_context env)"
  by (simp_all add: keeps_def same_files_def logs_grow_def close_context_def bind_def perform_def
        split: option.splits)

section \<open>The helpers on known inputs\<close>

lemma toISOString_examples:
  "toISOString 0 = ''1970-01-01T00:00:00.000Z''"
  "toISOString (-1) = ''1969-12-31T23:59:59.999Z''"
  "toISOString 951782400000 = ''2000-02-29T00:00:00.000Z''"
  "toISOString 1709251199999 = ''2024-02-29T23:59:59.999Z''"
  "toISOString 1735689600000 = ''2025-01-01T00:00:00.000Z''"
  "toISOString 253402300800000 = ''+010000-01-01T00:00:00.000Z''"
  by code_simp+

lemma runStamp_example: "runStamp_of 1711499400123 = ''2024-03-27T00-30-00''"
  by code_simp

lemma path_join_examples:
  "path_join ''/app/src'' ''..'' = ''/app''"
  "path_join ''/app'' ''data'' = ''/app/data''"
  "path_join ''/app/data/'' ''./A'' = ''/app/data/A''"
  "path_join ''/app/data/A'' ''A__x/../../b'' = ''/app/data/b''"
  "path_join ''a/b/'' ''../../../c/'' = ''../c/''"
  by code_simp+

lemma tenant_list_example:
  "filter (\<lambda>s. s \<noteq> []) (map trim (split CHR '','' '' A ,,B, '')) = [''A'', ''B'']"
  by code_simp

text \<open>For the years 0 to 9999, the first ten characters of \<open>toISOString\<close> are \<open>YYYY-MM-DD\<close>.\<close>

lemma toYMD_format:
  assumes "0 \<le> YearFromTime t" and "YearFromTime t \<le> 9999"
  shows "toYMD t = pad4 (YearFromTime t) @ ''-'' @ pad2 (MonthFromTime t + 1) @ ''-'' @
                   pad2 (DateFromTime t)"
    and "length (toYMD t) = 10"
  using assms
  by (simp_all add: toYMD_def toISOString_def year_string_def pad4_def pad3_def pad2_def Let_def)

section \<open>setLast12Months\<close>

lemma perform_apply:
  "perform env a w =
     (case rejects env (trace w) a of Some m \<Rightarrow> Inl (LibError m) | None \<Rightarrow> Inr (),
      w\<lparr>trace := trace w @ [a]\<rparr>)"
  by (simp add: perform_def)

text \<open>
  C5. When the preset selector is configured and \<open>page.$\<close> finds it, \<open>setLast12Months\<close>
  makes exactly two calls, the query and the click on the preset: no \<open>fill\<close>, no query for
  an Apply button and no click on one. Nothing else of the world changes, and the outcome is
  that of the click: the function returns when the click succeeds.
\<close>

theorem preset_click_short_circuits:
  assumes "presetLast12Selector cfg = Some sel" and "sel \<noteq> []"
    and "rejects env (trace w) (Query sel) = None" and "present env (trace w) sel"
  shows "snd (setLast12Months env cfg w) = w\<lparr>trace := trace w @ [Query sel, Click sel]\<rparr>
         \<and> fst (setLast12Months env cfg w) =
             (case rejects env (trace w @ [Query sel]) (Click sel) of
                None \<Rightarrow> Inr () | Some m \<Rightarrow> Inl (LibError m))"
proof -
  have q: "query env sel w = (Inr True, w\<lparr>trace := trace w @ [Query sel]\<rparr>)"
    using assms(3,4) by (simp add: query_def)
  have "setLast12Months env cfg w = perform env (Click sel) (w\<lparr>trace := trace w @ [Query sel]\<rparr>)"
    using assms(1,2) by (simp add: setLast12Months_def bind_def q)
  then show ?thesis
    by (simp add: perform_apply split: option.splits)
qed

theorem preset_click_short_circuits_witness:
  "trace (snd (setLast12Months preset_portal sales fresh)) = [Query ''#last12'', Click ''#last12'']
   \<and> fst (setLast12Months preset_portal sales fresh) = Inr ()"
proof -
  have h1: "presetLast12Selector sales = Some ''#last12''"
    by (simp add: sales_def)
  have h2: "''#last12'' \<noteq> []"
    by simp
  have h3: "rejects preset_portal (trace fresh) (Query ''#last12'') = None"
    by (simp add: preset_portal_def quiet_portal_def)
  have h4: "present preset_portal (trace fresh) ''#last12''"
    by (simp add: preset_portal_def quiet_portal_def)
  have h5: "rejects preset_portal [Query ''#last12''] (Click ''#last12'') = None"
    by (simp add: preset_portal_def quiet_portal_def)
  show ?thesis
    using preset_click_short_circuits [OF h1 h2 h3 h4] by (simp add: h5 fresh_def)
qed

text \<open>
  C6. \<open>setLast12Months\<close> has no \<open>try\<close>: a \<open>fill\<close> that rejects, as it does when no element
  matches the configured input, leaves the function as an exception.
\<close>

theorem setLast12Months_throws_on_failed_fill:
  "setLast12Months fill_rejects_portal sales fresh =
     (Inl (LibError ''Timeout 30000ms exceeded''),
      fresh\<lparr>trace := [Query ''#last12'', Fill ''#from'' ''2023-03-29'']\<rparr>)"
proof -
  have d: "toYMD (setDate (\<lambda>t isUTC. 0) 1711499400000
             (getDate (\<lambda>t isUTC. 0) 1711499400000 - 364)) = ''2023-03-29''"
    by code_simp
  show ?thesis
    by (simp add: setLast12Months_def set_dates_manually_def bind_def query_def perform_def
          when_set_def fill_rejects_portal_def quiet_portal_def sales_def fresh_def d)
qed

section \<open>The date window\<close>

text \<open>
  \<open>start.setDate(start.getDate() - 364)\<close> moves the local time value back by 364 days; the
  UTC instant it stands for is found with the offset in force at that local time.
\<close>

lemma setDate_getDate_minus:
  "setDate tz t (getDate tz t - n) = UTC tz (LocalTime tz t - n * msPerDay)"
proof -
  have a: "MakeDay (YearFromTime lt) (MonthFromTime lt) (DateFromTime lt - n) = Day lt - n" for lt
    by (simp add: DateFromTime_def MakeDay_def)
  have b: "MakeDate (Day lt - n) (TimeWithinDay lt) = lt - n * msPerDay" for lt
  proof -
    have "lt div msPerDay * msPerDay + lt mod msPerDay = lt"
      by simp
    then show ?thesis
      by (simp add: MakeDate_def Day_def TimeWithinDay_def left_diff_distrib)
  qed
  show ?thesis
    by (simp add: setDate_def getDate_def Let_def a b)
qed

text \<open>
  Where the offset of local time is the same whenever it is asked for (a host in UTC, or
  in a zone without summer time), the start is the instant 364 days before, so its UTC
  day is the day 364 days before the end's.
\<close>

lemma fixed_offset_window:
  assumes "\<And>t isUTC. tz t isUTC = c"
  shows "setDate tz t (getDate tz t - 364) = t - 364 * msPerDay"
    and "Day (setDate tz t (getDate tz t - 364)) = Day t - 364"
proof -
  show a: "setDate tz t (getDate tz t - 364) = t - 364 * msPerDay"
    by (simp add: setDate_getDate_minus UTC_def LocalTime_def assms)
  show "Day (setDate tz t (getDate tz t - 364)) = Day t - 364"
    unfolding a by (simp add: Day_def msPerDay_def)
qed

text \<open>
  C7. In Europe/London, at 2024-03-27T00:30Z: the local date 364 days before is
  2023-03-29, at 00:30 summer time, which is 2023-03-28T23:30Z. \<open>toISOString\<close> works in
  UTC, so the start input is filled with 2023-03-28, 365 days before the end, where the day
  364 days before the end is 2023-03-29.
\<close>

theorem window_is_365_days_across_summer_time:
  "clock london_portal [] = 1711499400000
   \<and> toISOString 1711499400000 = ''2024-03-27T00:30:00.000Z''
   \<and> toYMD (1711499400000 - 364 * msPerDay) = ''2023-03-29''
   \<and> trace (snd (setLast12Months london_portal sales fresh)) =
       [Query ''#last12'', Fill ''#from'' ''2023-03-28'', Fill ''#to'' ''2024-03-27'',
        Query ''text=Apply'']
   \<and> Day (setDate london 1711499400000 (getDate london 1711499400000 - 364)) =
       Day 1711499400000 - 365"
proof -
  have d1: "toYMD (setDate london 1711499400000 (getDate london 1711499400000 - 364)) =
            ''2023-03-28''"
    by code_simp
  have d2: "toYMD 1711499400000 = ''2024-03-27''"
    by code_simp
  have d3: "toISOString 1711499400000 = ''2024-03-27T00:30:00.000Z''"
    by code_simp
  have d4: "Day (setDate london 1711499400000 (getDate london 1711499400000 - 364)) =
            Day 1711499400000 - 365"
    by code_simp
  have d5: "toYMD (1711499400000 - 364 * msPerDay) = ''2023-03-29''"
    by code_simp
  have t: "trace (snd (setLast12Months london_portal sales fresh)) =
       [Query ''#last12'', Fill ''#from'' ''2023-03-28'', Fill ''#to'' ''2024-03-27'',
        Query ''text=Apply'']"
    by (simp add: setLast12Months_def set_dates_manually_def bind_def query_def perform_def
          when_set_def london_portal_def quiet_portal_def sales_def fresh_def d1 d2)
  show ?thesis
    using d3 d4 d5 t by (simp add: london_portal_def quiet_portal_def)
qed

section \<open>exportCsv\<close>

lemma click_and_wait_snd:
  "snd (click_and_wait_for_download env sel w) =
     w\<lparr>trace := trace w @ [WaitForEvent ''download'' 12000, Click sel]\<rparr>"
  by (simp add: click_and_wait_for_download_def Let_def split: option.splits)

lemma click_and_wait_fails_iff:
  "(\<exists>e. fst (click_and_wait_for_download env sel w) = Inl e) =
     (rejects env (trace w) (WaitForEvent ''download'' 12000) \<noteq> None \<or>
      rejects env (trace w) (Click sel) \<noteq> None)"
  by (auto simp: click_and_wait_for_download_def Let_def split: option.splits)

lemma save_download_not_capture_error:
  "fst (save_download env dl base w) \<noteq> Inl ExportCaptureError"
  by (simp add: save_download_def saveAs_def bind_def ExportCaptureError_def Let_def
        split: option.splits)

lemma href_fallback_capture_error_iff:
  "(fst (href_fallback env base w) = Inl ExportCaptureError) =
     (rejects env (trace w) (Query csv_link) = None \<and> \<not> present env (trace w) csv_link)"
  by (simp add: href_fallback_def bind_def log_def query_def getAttribute_def evaluate_fetch_def
        writeFileSync_def ExportCaptureError_def Let_def split: option.splits)

lemma href_fallback_capture_error_files:
  "fst (href_fallback env base w) = Inl ExportCaptureError \<Longrightarrow>
   files (snd (href_fallback env base w)) = files w"
  by (simp add: href_fallback_def bind_def log_def query_def getAttribute_def evaluate_fetch_def
        writeFileSync_def ExportCaptureError_def Let_def split: option.splits if_splits)

text \<open>
  C2. \<open>exportCsv\<close> throws its own error, the one of the last line of the \<open>catch\<close> block,
  exactly when the wait for the download event or the export click rejected and then
  \<open>page.$('a[href$=".csv"]')\<close> found nothing. In that case no file was written.
\<close>

theorem exportCsv_capture_error_iff:
  "(fst (exportCsv env cfg base w) = Inl ExportCaptureError) =
     ((rejects env (trace w) (WaitForEvent ''download'' 12000) \<noteq> None \<or>
       rejects env (trace w) (Click (export_selector cfg)) \<noteq> None) \<and>
      rejects env (after_export_click cfg (trace w)) (Query csv_link) = None \<and>
      \<not> present env (after_export_click cfg (trace w)) csv_link)
   \<and> (fst (exportCsv env cfg base w) = Inl ExportCaptureError \<longrightarrow>
        files (snd (exportCsv env cfg base w)) = files w)"
proof (cases "click_and_wait_for_download env (export_selector cfg) w")
  case (Pair r w1)
  have w1: "w1 = w\<lparr>trace := after_export_click cfg (trace w)\<rparr>"
    using click_and_wait_snd [of env "export_selector cfg" w] Pair
    by (simp add: after_export_click_def)
  show ?thesis
  proof (cases r)
    case (Inl e)
    have failed: "rejects env (trace w) (WaitForEvent ''download'' 12000) \<noteq> None \<or>
                  rejects env (trace w) (Click (export_selector cfg)) \<noteq> None"
      using click_and_wait_fails_iff [of env "export_selector cfg" w] Pair Inl by simp
    have run: "exportCsv env cfg base w = href_fallback env base w1"
      using Pair Inl by (simp add: exportCsv_def)
    have "files (snd (href_fallback env base w1)) = files w"
      if "fst (href_fallback env base w1) = Inl ExportCaptureError"
      using href_fallback_capture_error_files [OF that] by (simp add: w1)
    then show ?thesis
      using failed href_fallback_capture_error_iff [of env base w1]
      by (simp add: run) (simp add: w1)
  next
    case (Inr dl)
    have ok: "\<not> (rejects env (trace w) (WaitForEvent ''download'' 12000) \<noteq> None \<or>
                  rejects env (trace w) (Click (export_selector cfg)) \<noteq> None)"
      using click_and_wait_fails_iff [of env "export_selector cfg" w] Pair Inr by simp
    have run: "exportCsv env cfg base w = save_download env dl base w1"
      using Pair Inr by (simp add: exportCsv_def)
    show ?thesis
      using ok save_download_not_capture_error [of env dl base w1] by (simp add: run)
  qed
qed

theorem exportCsv_capture_error_iff_witness:
  "fst (exportCsv no_export_portal sales ''/app/data/A/A__sales__2024-03-27T00-30-00'' fresh) =
     Inl ExportCaptureError
   \<and> files (snd (exportCsv no_export_portal sales
        ''/app/data/A/A__sales__2024-03-27T00-30-00'' fresh)) = files fresh"
proof -
  have h1: "rejects no_export_portal (trace fresh) (WaitForEvent ''download'' 12000) \<noteq> None"
    by (simp add: no_export_portal_def quiet_portal_def)
  have h2: "rejects no_export_portal (after_export_click sales (trace fresh)) (Query csv_link) = None"
    by (simp add: no_export_portal_def quiet_portal_def)
  have h3: "\<not> present no_export_portal (after_export_click sales (trace fresh)) csv_link"
    by (simp add: no_export_portal_def quiet_portal_def)
  show ?thesis
    using exportCsv_capture_error_iff
      [of no_export_portal sales "''/app/data/A/A__sales__2024-03-27T00-30-00''" fresh] h1 h2 h3
    by simp
qed

text \<open>
  C3. When the wait for the download event or the export click rejected, \<open>page.$\<close> finds a
  link whose href ends in \<open>.csv\<close>, and the three calls that follow succeed (reading the
  href, the fetch inside the page, the write), \<open>exportCsv\<close> evaluates the fetch of that href
  in the page, writes the text it returned to \<open>savePathBase + ".csv"\<close>, unchanged, and
  returns that path. No other file is touched.
\<close>

theorem exportCsv_href_fallback:
  assumes "rejects env (trace w) (WaitForEvent ''download'' 12000) \<noteq> None \<or>
           rejects env (trace w) (Click (export_selector cfg)) \<noteq> None"
    and "h1 = after_export_click cfg (trace w)"
    and "rejects env h1 (Query csv_link) = None" and "present env h1 csv_link"
    and "h2 = h1 @ [Query csv_link]"
    and "rejects env h2 (GetAttribute csv_link ''href'') = None"
    and "href = attribute env h2 csv_link ''href''"
    and "h3 = h2 @ [GetAttribute csv_link ''href'']"
    and "rejects env h3 (EvaluateFetch href) = None"
    and "h4 = h3 @ [EvaluateFetch href]"
    and "rejects env h4 (WriteFile (base @ ''.csv'')) = None"
  shows "fst (exportCsv env cfg base w) = Inr (base @ ''.csv'')
         \<and> files (snd (exportCsv env cfg base w)) = (files w)(base @ ''.csv'' \<mapsto> fetched env h3 href)
         \<and> trace (snd (exportCsv env cfg base w)) = h4 @ [WriteFile (base @ ''.csv'')]"
proof (cases "click_and_wait_for_download env (export_selector cfg) w")
  case (Pair r w1)
  have w1: "w1 = w\<lparr>trace := h1\<rparr>"
    using click_and_wait_snd [of env "export_selector cfg" w] Pair assms(2)
    by (simp add: after_export_click_def)
  obtain e where r: "r = Inl e"
    using click_and_wait_fails_iff [of env "export_selector cfg" w] Pair assms(1) by auto
  have run: "exportCsv env cfg base w = href_fallback env base w1"
    using Pair r by (simp add: exportCsv_def)
  show ?thesis
    unfolding run w1 using assms(3-11)
    by (simp add: href_fallback_def bind_def log_def query_def getAttribute_def
          evaluate_fetch_def writeFileSync_def Let_def)
qed

theorem exportCsv_href_fallback_witness:
  "fst (exportCsv fallback_portal sales ''/app/data/A/A__sales__2024-03-27T00-30-00'' fresh) =
     Inr ''/app/data/A/A__sales__2024-03-27T00-30-00.csv''
   \<and> files (snd (exportCsv fallback_portal sales
        ''/app/data/A/A__sales__2024-03-27T00-30-00'' fresh))
        ''/app/data/A/A__sales__2024-03-27T00-30-00.csv'' = Some ''x,y''
   \<and> trace (snd (exportCsv fallback_portal sales
        ''/app/data/A/A__sales__2024-03-27T00-30-00'' fresh)) =
       [WaitForEvent ''download'' 12000, Click ''text=Export'', Query csv_link,
        GetAttribute csv_link ''href'', EvaluateFetch (Some ''/files/sales.csv''),
        WriteFile ''/app/data/A/A__sales__2024-03-27T00-30-00.csv'']"
proof -
  let ?h1 = "after_export_click sales (trace fresh)"
  let ?h2 = "?h1 @ [Query csv_link]"
  let ?h3 = "?h2 @ [GetAttribute csv_link ''href'']"
  let ?href = "attribute fallback_portal ?h2 csv_link ''href''"
  let ?h4 = "?h3 @ [EvaluateFetch ?href]"
  let ?base = "''/app/data/A/A__sales__2024-03-27T00-30-00''"
  have a1: "rejects fallback_portal (trace fresh) (WaitForEvent ''download'' 12000) \<noteq> None \<or>
            rejects fallback_portal (trace fresh) (Click (export_selector sales)) \<noteq> None"
    by (simp add: fallback_portal_def quiet_portal_def)
  have a3: "rejects fallback_portal ?h1 (Query csv_link) = None"
    by (simp add: fallback_portal_def quiet_portal_def)
  have a4: "present fallback_portal ?h1 csv_link"
    by (simp add: fallback_portal_def quiet_portal_def)
  have a6: "rejects fallback_portal ?h2 (GetAttribute csv_link ''href'') = None"
    by (simp add: fallback_portal_def quiet_portal_def)
  have a9: "rejects fallback_portal ?h3 (EvaluateFetch ?href) = None"
    by (simp add: fallback_portal_def quiet_portal_def)
  have a11: "rejects fallback_portal ?h4 (WriteFile (?base @ ''.csv'')) = None"
    by (simp add: fallback_portal_def quiet_portal_def)
  have s: "export_selector sales = ''text=Export''"
    by (simp add: export_selector_def or_else_def sales_def)
  show ?thesis
    using exportCsv_href_fallback [OF a1 refl a3 a4 refl a6 refl refl a9 refl a11]
    by (simp add: after_export_click_def s fresh_def fallback_portal_def quiet_portal_def)
qed

section \<open>runTenant and the browser context\<close>

lemma closes_one_close_context: "closes_one (close_context env)"
  by (simp add: closes_one_def close_context_def bind_def perform_def split: option.splits)

lemma closes_oneD:
  "closes_one m \<Longrightarrow>
   contexts (snd (m w)) = (case fst (m w) of Inl e \<Rightarrow> contexts w | Inr x \<Rightarrow> contexts w - 1)"
  by (simp add: closes_one_def)

lemma closes_one_throw: "closes_one (throw e)"
  by (simp add: closes_one_def)

lemma closes_one_bind:
  assumes m: "keeps same_contexts m" and f: "\<And>x. closes_one (f x)"
  shows "closes_one (bind m f)"
  unfolding closes_one_def
proof
  fix w
  show "contexts (snd (bind m f w)) =
          (case fst (bind m f w) of Inl e \<Rightarrow> contexts w | Inr x \<Rightarrow> contexts w - 1)"
  proof (cases rule: bind_cases [of m w f])
    case (throws e w')
    with keepsD [OF m, of w] show ?thesis
      by (simp add: same_contexts_def)
  next
    case (returns x w')
    have "contexts w' = contexts w"
      using keepsD [OF m, of w] returns(1) by (simp add: same_contexts_def)
    with closes_oneD [OF f, of x w'] returns(2) show ?thesis
      by (simp split: sum.splits)
  qed
qed

text \<open>What \<open>runTenant\<close> does once the context is open.\<close>

lemma runTenant_unfold:
  "runTenant env tenantCfg cr = bind (newContext env) (\<lambda>_. tenant_session env tenantCfg cr)"
  by (simp add: runTenant_def tenant_session_def)

lemma closes_one_tenant_session: "closes_one (tenant_session env tenantCfg cr)"
  unfolding tenant_session_def Let_def ensureDir_def
  by (auto intro!: closes_one_bind closes_one_throw closes_one_close_context keeps_basic
        keeps_login keeps_runStamp keeps_run_reports_quiet split: option.splits)

lemma newContext_apply:
  "newContext env w =
     (case rejects env (trace w) NewContext of
        Some m \<Rightarrow> (Inl (LibError m), w\<lparr>trace := trace w @ [NewContext]\<rparr>)
      | None \<Rightarrow> (Inr (), w\<lparr>trace := trace w @ [NewContext], contexts := contexts w + 1\<rparr>))"
  by (simp add: newContext_def bind_def perform_def split: option.splits)

text \<open>
  C8, as the code has it. \<open>runTenant\<close> closes the context it opened in its last statement
  only: when it returns, as many contexts are open as before the call; when it throws after
  \<open>browser.newContext\<close> succeeded (the base URL is not set, or the login, a navigation, the
  date range or an export throws), the context it opened stays open.
\<close>

theorem runTenant_closes_context_on_return_only:
  "contexts (snd (runTenant env tenantCfg cr w)) =
     (case fst (runTenant env tenantCfg cr w) of
        Inr u \<Rightarrow> contexts w
      | Inl e \<Rightarrow> if rejects env (trace w) NewContext = None then contexts w + 1 else contexts w)"
proof (cases "rejects env (trace w) NewContext")
  case (Some m)
  then show ?thesis
    by (simp add: runTenant_unfold bind_def newContext_apply)
next
  case None
  let ?w1 = "w\<lparr>trace := trace w @ [NewContext], contexts := contexts w + 1\<rparr>"
  have run: "runTenant env tenantCfg cr w = tenant_session env tenantCfg cr ?w1"
    using None by (simp add: runTenant_unfold bind_def newContext_apply)
  show ?thesis
    using None closes_oneD [OF closes_one_tenant_session, of env tenantCfg cr ?w1]
    by (simp add: run split: sum.splits)
qed

text \<open>
  The portal cannot be reached: the login throws, and the context opened for tenant
  \<open>A\<close> is still open when \<open>runTenant\<close> is left, and after the \<open>catch\<close> block of \<open>main\<close>.
\<close>

theorem context_left_open_when_login_throws:
  "fst (runTenant unreachable_portal tenantA alice fresh) =
     Inl (LibError ''net::ERR_CONNECTION_REFUSED'')
   \<and> trace (snd (runTenant unreachable_portal tenantA alice fresh)) =
       [NewContext, NewPage, Mkdir ''/app/data/A'', Goto ''https://a.example/'']
   \<and> contexts fresh = 0
   \<and> contexts (snd (runTenant unreachable_portal tenantA alice fresh)) = 1
   \<and> contexts (snd (attempt_tenant unreachable_portal tenantA fresh)) = 1"
proof -
  have p1: "path_join ''/app'' ''data'' = ''/app/data''"
    by code_simp
  have p2: "path_join ''/app/data'' ''A'' = ''/app/data/A''"
    by code_simp
  have pe: "process_env unreachable_portal ''RSI_URL_A'' = Some ''https://a.example/''"
    "process_env unreachable_portal ''RSI_USER_A'' = Some ''alice''"
    "process_env unreachable_portal ''RSI_PASS_A'' = Some ''pw''"
    by (simp_all add: unreachable_portal_def quiet_portal_def)
  have r: "runTenant unreachable_portal tenantA alice fresh =
     (Inl (LibError ''net::ERR_CONNECTION_REFUSED''),
      \<lparr>trace = [NewContext, NewPage, Mkdir ''/app/data/A'', Goto ''https://a.example/''],
       logs = [join '' '' [toISOString 1711499400000, ''-'', ''[A] Logging in...'']],
       files = Map.empty, contexts = 1\<rparr>)"
    by (simp add: runTenant_def tenant_session_def bind_def perform_def newContext_def
          env_var_def nullish_def DATA_DIR_def ensureDir_def log_def login_def
          tenantA_def alice_def fresh_def p1 p2 unreachable_portal_def quiet_portal_def)
  have c: "getCredsForTenant unreachable_portal ''A'' = Inr alice"
    by (simp add: getCredsForTenant_def env_var_def nullish_def truthy_def pe alice_def)
  have a: "contexts (snd (attempt_tenant unreachable_portal tenantA fresh)) = 1"
    using r c by (simp add: attempt_tenant_def try_tenant_def log_def tenantA_def)
  show ?thesis
    using r a by (simp add: fresh_def)
qed

section \<open>The loop over the tenants\<close>

lemma keeps_logs_tenant_session: "keeps logs_grow (tenant_session env tenantCfg cr)"
  unfolding tenant_session_def Let_def ensureDir_def
  by (auto intro!: keeps_bind keeps_basic keeps_login keeps_runStamp keeps_run_reports_quiet
        keeps_close_context split: option.splits)

lemma keeps_logs_runTenant: "keeps logs_grow (runTenant env tenantCfg cr)"
  unfolding runTenant_def by (intro keeps_bind keeps_newContext keeps_logs_tenant_session)

lemma keeps_logs_try_tenant: "keeps logs_grow (try_tenant env cfg)"
  by (simp add: try_tenant_def keeps_basic keeps_logs_runTenant split: sum.splits)

lemma attempt_tenant_returns: "fst (attempt_tenant env cfg w) = Inr ()"
  by (simp add: attempt_tenant_def log_def split: prod.splits sum.splits)

lemma keeps_logs_attempt_tenant: "keeps logs_grow (attempt_tenant env cfg)"
proof (rule keepsI)
  fix w
  have "logs_grow w (snd (try_tenant env cfg w))"
    by (rule keepsD [OF keeps_logs_try_tenant])
  then show "logs_grow w (snd (attempt_tenant env cfg w))"
    by (auto simp: attempt_tenant_def log_def logs_grow_def split: prod.splits sum.splits)
qed

lemma keeps_logs_run_tenants: "keeps logs_grow (run_tenants env cfgs)"
proof (induction cfgs)
  case Nil
  show ?case
    unfolding run_tenants.simps by (rule keeps_return)
next
  case (Cons cfg cfgs)
  show ?case
    unfolding run_tenants.simps by (intro keeps_logs_bind keeps_logs_attempt_tenant Cons.IH)
qed

lemma run_tenants_returns: "fst (run_tenants env cfgs w) = Inr ()"
proof (induction cfgs arbitrary: w)
  case Nil
  show ?case by (simp add: return_apply)
next
  case (Cons cfg cfgs)
  obtain w' where a: "attempt_tenant env cfg w = (Inr (), w')"
    using attempt_tenant_returns [of env cfg w] by (cases "attempt_tenant env cfg w") auto
  show ?case
    using Cons.IH [of w'] by (simp add: bind_def a)
qed

lemma run_tenants_Cons:
  "run_tenants env (cfg # cfgs) w = run_tenants env cfgs (snd (attempt_tenant env cfg w))"
  using attempt_tenant_returns [of env cfg w]
  by (cases "attempt_tenant env cfg w") (simp add: bind_def)

lemma run_tenants_append:
  "run_tenants env (pre @ post) w = run_tenants env post (snd (run_tenants env pre w))"
  by (induction pre arbitrary: w)
    (simp_all add: run_tenants_Cons return_apply del: run_tenants.simps(2))

text \<open>
  C1. Whatever \<open>getCredsForTenant\<close> or \<open>runTenant\<close> throws for a tenant \<open>c\<close> of the list,
  wherever in \<open>runTenant\<close> it was thrown, is caught: a line made of the time, the tenant's id
  and the error's message is logged, and the loop goes on with the tenants after \<open>c\<close>, in the
  order of the list, from the world the failed attempt left. The line is still in the log
  when the loop ends, and the loop itself never throws.
\<close>

theorem tenant_failure_is_isolated:
  assumes "try_tenant env c (snd (run_tenants env pre w)) = (Inl e, w2)"
    and "line = toISOString (clock env (trace w2)) @ '' - ['' @ id_cfg c @ ''] ERROR: '' @ message e"
  shows "run_tenants env (pre @ c # post) w = run_tenants env post (w2\<lparr>logs := logs w2 @ [line]\<rparr>)
         \<and> line \<in> set (logs (snd (run_tenants env (pre @ c # post) w)))
         \<and> fst (run_tenants env (pre @ c # post) w) = Inr ()"
proof -
  let ?w3 = "w2\<lparr>logs := logs w2 @ [line]\<rparr>"
  have a: "attempt_tenant env c (snd (run_tenants env pre w)) = (Inr (), ?w3)"
    using assms by (simp add: attempt_tenant_def log_def)
  have run: "run_tenants env (pre @ c # post) w = run_tenants env post ?w3"
    by (simp add: run_tenants_append [of env pre] run_tenants_Cons a del: run_tenants.simps(2))
  have "logs_grow ?w3 (snd (run_tenants env post ?w3))"
    by (rule keepsD [OF keeps_logs_run_tenants])
  then have "line \<in> set (logs (snd (run_tenants env post ?w3)))"
    by (auto simp: logs_grow_def)
  then show ?thesis
    by (simp add: run run_tenants_returns)
qed

text \<open>
  Tenant \<open>A\<close> fails inside the loop over its reports (no download, no link), tenant \<open>B\<close>
  comes after it.
\<close>

theorem tenant_failure_is_isolated_witness:
  "fst (try_tenant no_export_portal tenantA fresh) = Inl ExportCaptureError
   \<and> ''2024-03-27T00:30:00.000Z - [A] ERROR: Could not capture CSV download (neither event nor link). Update selectors for this report.''
       \<in> set (logs (snd (run_tenants no_export_portal [tenantA, tenantB] fresh)))
   \<and> fst (run_tenants no_export_portal [tenantA, tenantB] fresh) = Inr ()"
proof -
  have p1: "path_join ''/app'' ''data'' = ''/app/data''"
    by code_simp
  have p2: "path_join ''/app/data'' ''A'' = ''/app/data/A''"
    by code_simp
  have p3: "path_join ''/app/data/A'' ''A__sales__2024-03-27T00-30-00'' =
            ''/app/data/A/A__sales__2024-03-27T00-30-00''"
    by code_simp
  have s1: "runStamp_of 1711499400000 = ''2024-03-27T00-30-00''"
    by code_simp
  have s2: "toISOString 1711499400000 = ''2024-03-27T00:30:00.000Z''"
    by code_simp
  have s3: "toYMD 1711499400000 = ''2024-03-27''"
    by code_simp
  have s4: "toYMD (setDate (\<lambda>t isUTC. 0) 1711499400000
              (getDate (\<lambda>t isUTC. 0) 1711499400000 - 364)) = ''2023-03-29''"
    by code_simp
  obtain w2 where t: "try_tenant no_export_portal tenantA (snd (run_tenants no_export_portal [] fresh)) =
                    (Inl ExportCaptureError, w2)"
    and c: "clock no_export_portal (trace w2) = 1711499400000"
  proof
    show "try_tenant no_export_portal tenantA (snd (run_tenants no_export_portal [] fresh)) =
            (Inl ExportCaptureError, snd (try_tenant no_export_portal tenantA fresh))"
      by (simp add: try_tenant_def getCredsForTenant_def truthy_def
          runTenant_def tenant_session_def bind_def perform_def newContext_def close_context_def
          env_var_def nullish_def DATA_DIR_def ensureDir_def log_def login_def submit_login_def
          runStamp_def run_report_def setLast12Months_def set_dates_manually_def when_set_def
          query_def exportCsv_def click_and_wait_for_download_def export_selector_def or_else_def
          href_fallback_def savePathBase_of_def report_url_def startsWith_def strip_trailing_slash_def
          csv_link_def ExportCaptureError_def
          no_export_portal_def quiet_portal_def tenantA_def sales_def fresh_def
          p1 p2 p3 s1 s2 s3 s4)
    show "clock no_export_portal (trace (snd (try_tenant no_export_portal tenantA fresh))) =
            1711499400000"
      by (simp add: no_export_portal_def quiet_portal_def)
  qed
  have m: "message ExportCaptureError =
           ''Could not capture CSV download (neither event nor link). Update selectors for this report.''"
    by (simp add: ExportCaptureError_def)
  have i: "id_cfg tenantA = ''A''"
    by (simp add: tenantA_def)
  have l: "''2024-03-27T00:30:00.000Z - [A] ERROR: Could not capture CSV download (neither event nor link). Update selectors for this report.'' =
           toISOString (clock no_export_portal (trace w2)) @ '' - ['' @ id_cfg tenantA @
           ''] ERROR: '' @ message ExportCaptureError"
    by (simp add: c s2 m i)
  have t': "fst (try_tenant no_export_portal tenantA fresh) = Inl ExportCaptureError"
    using t by simp
  show ?thesis
    using tenant_failure_is_isolated [OF t l, of "[tenantB]", THEN conjunct2] t'
    by (simp del: run_tenants.simps)
qed

section \<open>Missing credentials\<close>

lemma getCredsForTenant_missing:
  assumes "\<not> truthy (process_env env (''RSI_USER_'' @ i)) \<or>
           \<not> truthy (process_env env (''RSI_PASS_'' @ i))"
  shows "getCredsForTenant env i = Inl (MissingCreds i)"
proof -
  have "nullish v None = v" for v :: "string option"
    by (simp add: nullish_def split: option.splits)
  then show ?thesis
    using assms by (auto simp: getCredsForTenant_def env_var_def Let_def)
qed

text \<open>
  C9, as the code has it. \<open>getCredsForTenant\<close> is called inside the \<open>try\<close> block of the loop.
  When \<open>RSI_USER_<id>\<close> or \<open>RSI_PASS_<id>\<close> is missing (unset or empty) for a tenant, the error
  is thrown before \<open>runTenant\<close> is entered: no call is made on the browser or the file system,
  no context is opened. The \<open>catch\<close> block logs the error with the tenant's id, and the loop
  goes on with the next tenant: the run does not fail.
\<close>

theorem missing_creds_skip_the_tenant:
  assumes "\<not> truthy (process_env env (''RSI_USER_'' @ id_cfg cfg)) \<or>
           \<not> truthy (process_env env (''RSI_PASS_'' @ id_cfg cfg))"
    and "line = toISOString (clock env (trace w)) @ '' - ['' @ id_cfg cfg @ ''] ERROR: '' @
                message (MissingCreds (id_cfg cfg))"
  shows "try_tenant env cfg w = (Inl (MissingCreds (id_cfg cfg)), w)
         \<and> attempt_tenant env cfg w = (Inr (), w\<lparr>logs := logs w @ [line]\<rparr>)
         \<and> run_tenants env (cfg # cfgs) w = run_tenants env cfgs (w\<lparr>logs := logs w @ [line]\<rparr>)"
proof -
  have t: "try_tenant env cfg w = (Inl (MissingCreds (id_cfg cfg)), w)"
    by (simp add: try_tenant_def getCredsForTenant_missing [OF assms(1)])
  have a: "attempt_tenant env cfg w = (Inr (), w\<lparr>logs := logs w @ [line]\<rparr>)"
    by (simp add: attempt_tenant_def t log_def assms(2))
  show ?thesis
    by (simp add: t a bind_def)
qed

theorem missing_creds_skip_the_tenant_witness:
  "try_tenant no_password_portal tenantA fresh = (Inl (MissingCreds ''A''), fresh)
   \<and> attempt_tenant no_password_portal tenantA fresh =
       (Inr (), fresh\<lparr>logs := [''2024-03-27T00:30:00.000Z - [A] ERROR: Missing creds for tenant A. Add RSI_USER_A/RSI_PASS_A to .env'']\<rparr>)"
proof -
  have h: "\<not> truthy (process_env no_password_portal (''RSI_USER_'' @ id_cfg tenantA)) \<or>
           \<not> truthy (process_env no_password_portal (''RSI_PASS_'' @ id_cfg tenantA))"
    by (simp add: no_password_portal_def quiet_portal_def tenantA_def truthy_def)
  have s2: "toISOString 1711499400000 = ''2024-03-27T00:30:00.000Z''"
    by code_simp
  have l: "''2024-03-27T00:30:00.000Z - [A] ERROR: Missing creds for tenant A. Add RSI_USER_A/RSI_PASS_A to .env'' =
           toISOString (clock no_password_portal (trace fresh)) @ '' - ['' @ id_cfg tenantA @
           ''] ERROR: '' @ message (MissingCreds (id_cfg tenantA))"
    by (simp add: no_password_portal_def quiet_portal_def tenantA_def MissingCreds_def s2)
  have i: "id_cfg tenantA = ''A''" "logs fresh = []"
    by (simp_all add: tenantA_def fresh_def)
  show ?thesis
    using missing_creds_skip_the_tenant [OF h l, of "[]"] by (simp add: i)
qed

text \<open>
  The password of tenant \<open>A\<close> is missing: \<open>main\<close> logs the error for \<open>A\<close>, runs tenant \<open>B\<close> and
  returns normally. The run does not fail with the error.
\<close>

theorem run_survives_missing_creds:
  "getCredsForTenant no_password_portal ''A'' = Inl (MissingCreds ''A'')
   \<and> fst (main no_password_portal [''node'', ''pull-rsi.js''] fresh) = Inr ()
   \<and> logs (snd (main no_password_portal [''node'', ''pull-rsi.js''] fresh)) =
       [''2024-03-27T00:30:00.000Z - [A] ERROR: Missing creds for tenant A. Add RSI_USER_A/RSI_PASS_A to .env'',
        ''2024-03-27T00:30:00.000Z - [B] Logging in...'',
        ''2024-03-27T00:30:00.000Z - [B] Logged in.'']"
proof -
  have p1: "path_join ''/app'' ''data'' = ''/app/data''"
    by code_simp
  have p2: "path_join ''/app/data'' ''B'' = ''/app/data/B''"
    by code_simp
  have s1: "runStamp_of 1711499400000 = ''2024-03-27T00-30-00''"
    by code_simp
  have s2: "toISOString 1711499400000 = ''2024-03-27T00:30:00.000Z''"
    by code_simp
  have ids: "getTenantIds no_password_portal (singleTenant (drop 2 [''node'', ''pull-rsi.js''])) =
             [''A'', ''B'']"
    by (simp add: getTenantIds_def singleTenant_def truthy_def env_var_def nullish_def
          trim_def is_ws_def no_password_portal_def quiet_portal_def)
  have cfgs: "resolve_cfgs [tenantA, tenantB] [''A'', ''B''] w = (Inr [tenantA, tenantB], w)" for w
    by (simp add: bind_def tenantA_def tenantB_def)
  have load: "loadTenants no_password_portal w = (Inr [tenantA, tenantB], w)" for w
    by (simp add: loadTenants_def no_password_portal_def quiet_portal_def)
  have a: "getCredsForTenant no_password_portal ''A'' = Inl (MissingCreds ''A'')"
    by (simp add: getCredsForTenant_def env_var_def nullish_def truthy_def
          no_password_portal_def quiet_portal_def)
  have b: "getCredsForTenant no_password_portal ''B'' = Inr \<lparr>user = ''bob'', pass = ''pw2''\<rparr>"
    by (simp add: getCredsForTenant_def env_var_def nullish_def truthy_def
          no_password_portal_def quiet_portal_def)
  have ia: "id_cfg tenantA = ''A''" and ib: "id_cfg tenantB = ''B''"
    by (simp_all add: tenantA_def tenantB_def)
  have ta: "attempt_tenant no_password_portal tenantA w =
            (Inr (), w\<lparr>logs := logs w @
               [''2024-03-27T00:30:00.000Z - [A] ERROR: Missing creds for tenant A. Add RSI_USER_A/RSI_PASS_A to .env'']\<rparr>)"
    for w
    by (simp only: attempt_tenant_def try_tenant_def ia a sum.case)
      (simp add: log_def MissingCreds_def no_password_portal_def quiet_portal_def s2)
  have tb: "attempt_tenant no_password_portal tenantB w =
            (Inr (), w\<lparr>trace := trace w @ [NewContext, NewPage, Mkdir ''/app/data/B'',
                 Goto ''https://b.example'',
                 Fill ''#username, input[name=\"username\"], input[type=\"email\"]'' ''bob'',
                 Fill ''#password, input[name=\"password\"], input[type=\"password\"]'' ''pw2'',
                 Click ''button[type=\"submit\"]'', Click ''text=Sign In'', Click ''text=Log In'',
                 WaitForLoadState ''networkidle'' 20000, CloseContext],
               logs := logs w @ [''2024-03-27T00:30:00.000Z - [B] Logging in...'',
                 ''2024-03-27T00:30:00.000Z - [B] Logged in.'']\<rparr>)"
    for w
    by (simp only: attempt_tenant_def try_tenant_def ib b sum.case)
      (simp add: runTenant_def tenant_session_def bind_def perform_def newContext_def close_context_def
          env_var_def nullish_def DATA_DIR_def ensureDir_def log_def login_def submit_login_def
          runStamp_def no_password_portal_def quiet_portal_def tenantB_def p1 p2 s1 s2)
  have rj: "rejects no_password_portal h x = None" for h x
    by (simp add: no_password_portal_def quiet_portal_def)
  have root: "ROOT no_password_portal = ''/app''"
    by (simp add: no_password_portal_def quiet_portal_def)
  have m: "main no_password_portal [''node'', ''pull-rsi.js''] fresh =
           (Inr (), fresh\<lparr>trace := [Mkdir ''/app/data'', Launch, NewContext, NewPage,
                 Mkdir ''/app/data/B'', Goto ''https://b.example'',
                 Fill ''#username, input[name=\"username\"], input[type=\"email\"]'' ''bob'',
                 Fill ''#password, input[name=\"password\"], input[type=\"password\"]'' ''pw2'',
                 Click ''button[type=\"submit\"]'', Click ''text=Sign In'', Click ''text=Log In'',
                 WaitForLoadState ''networkidle'' 20000, CloseContext, CloseBrowser],
               logs := [''2024-03-27T00:30:00.000Z - [A] ERROR: Missing creds for tenant A. Add RSI_USER_A/RSI_PASS_A to .env'',
                 ''2024-03-27T00:30:00.000Z - [B] Logging in...'',
                 ''2024-03-27T00:30:00.000Z - [B] Logged in.''],
               contexts := 0\<rparr>)"
    unfolding main_def Let_def ids
    by (simp add: bind_def load cfgs ta tb ensureDir_def perform_def close_browser_def DATA_DIR_def
          rj root p1 fresh_def del: resolve_cfgs.simps)
  show ?thesis
    using a m by (simp add: fresh_def)
qed

section \<open>Where the files are saved\<close>


































section \<open>Tenant resolution\<close>








end
